theory Spec2Isabelle
  imports Main
begin

section \<open>Network latency tester: the record class and the record store\<close>

text \<open>
  The development embeds \<^verbatim>\<open>PROJECT_NETWORK_LAT_TEST/PROJECT_CODE.py\<close>: the class
  \<^verbatim>\<open>LatencyTestRecord\<close> and the class \<^verbatim>\<open>DataStorage\<close>. Python objects
  live on a heap and are handled through references; a method is a function from the
  object's state to its return value and the new state; an exception is a value of a
  sum type; the text sent to the terminal is returned as data.
\<close>

subsection \<open>Python values\<close>

text \<open>
  The values the two classes handle. A \<^verbatim>\<open>datetime\<close> is represented by the number of
  microseconds it lies after the first instant the type can express. \<open>PyObj a\<close> is a
  reference to the \<^verbatim>\<open>LatencyTestRecord\<close> instance at address \<open>a\<close>.
\<close>

datatype pyval =
    PyNone
  | PyInt int
  | PyStr string
  | PyDatetime nat
  | PyObj nat

text \<open>
  Truth value testing, as the conditional expression in \<^verbatim>\<open>__init__\<close> applies it:
  \<^verbatim>\<open>None\<close>, zero and the empty string are false; a \<^verbatim>\<open>datetime\<close> and an
  instance of a class that defines neither \<^verbatim>\<open>__bool__\<close> nor \<^verbatim>\<open>__len__\<close> are true.
\<close>

fun truthy :: "pyval \<Rightarrow> bool" where
  "truthy PyNone = False"
| "truthy (PyInt n) = (n \<noteq> 0)"
| "truthy (PyStr s) = (s \<noteq> [])"
| "truthy (PyDatetime t) = True"
| "truthy (PyObj a) = True"

text \<open>
  The operator \<^verbatim>\<open>==\<close>. \<^verbatim>\<open>LatencyTestRecord\<close> defines no \<^verbatim>\<open>__eq__\<close>, so two
  instances are compared by \<^verbatim>\<open>object.__eq__\<close>: they are equal when they are the same
  object. Integers, strings and datetimes compare by value; values of different kinds
  are unequal.
\<close>

fun py_eq :: "pyval \<Rightarrow> pyval \<Rightarrow> bool" where
  "py_eq PyNone PyNone = True"
| "py_eq (PyInt m) (PyInt n) = (m = n)"
| "py_eq (PyStr s) (PyStr t) = (s = t)"
| "py_eq (PyDatetime s) (PyDatetime t) = (s = t)"
| "py_eq (PyObj a) (PyObj b) = (a = b)"
| "py_eq _ _ = False"

subsection \<open>LatencyTestRecord\<close>

record LatencyTestRecord =
  source :: string
  latency :: int
  test_time :: pyval

text \<open>
  \<^verbatim>\<open>__init__(self, source, latency, test_time=None)\<close>. The reading of the clock,
  \<^verbatim>\<open>datetime.now()\<close>, is the argument \<open>now\<close>; a call that passes no
  \<^verbatim>\<open>test_time\<close> is the call with \<open>PyNone\<close>.
\<close>

definition LatencyTestRecord_init :: "nat \<Rightarrow> string \<Rightarrow> int \<Rightarrow> pyval \<Rightarrow> LatencyTestRecord" where
  "LatencyTestRecord_init now src lat tt =
     \<lparr>source = src, latency = lat,
      test_time = (if truthy tt then tt else PyDatetime now)\<rparr>"

text \<open>
  The heap of \<^verbatim>\<open>LatencyTestRecord\<close> instances: the instance at address \<open>a\<close> is the
  \<open>a\<close>-th element. The call \<^verbatim>\<open>LatencyTestRecord(source, latency, test_time)\<close>
  allocates a new instance, initialises it and returns the reference to it.
\<close>

type_synonym heap = "LatencyTestRecord list"

definition deref :: "heap \<Rightarrow> nat \<Rightarrow> LatencyTestRecord option" where
  "deref h a = (if a < length h then Some (h ! a) else None)"

definition new_LatencyTestRecord ::
  "heap \<Rightarrow> nat \<Rightarrow> string \<Rightarrow> int \<Rightarrow> pyval \<Rightarrow> pyval \<times> heap" where
  "new_LatencyTestRecord h now src lat tt =
     (PyObj (length h), h @ [LatencyTestRecord_init now src lat tt])"

subsection \<open>Python lists\<close>

text \<open>
  The list operations the store uses. An operation that takes an index records the
  index it was given together with the length of the list at that moment, and fails
  with \<^verbatim>\<open>IndexError\<close> as Python does; a negative index counts from the end.
\<close>

datatype py_error = IndexError

type_synonym access = "int \<times> nat"

type_synonym 'a run = "access list \<times> (py_error + 'a)"

definition ret :: "'a \<Rightarrow> 'a run" where
  "ret x = ([], Inr x)"

definition and_then :: "'a run \<Rightarrow> ('a \<Rightarrow> 'b run) \<Rightarrow> 'b run" where
  "and_then m f =
     (case m of
        (t, Inl e) \<Rightarrow> (t, Inl e)
      | (t, Inr x) \<Rightarrow> (case f x of (t', r) \<Rightarrow> (t @ t', r)))"

definition len :: "'a list \<Rightarrow> int" where
  "len xs = int (length xs)"

definition norm_index :: "'a list \<Rightarrow> int \<Rightarrow> int" where
  "norm_index xs i = (if i < 0 then i + len xs else i)"

definition list_getitem :: "'a list \<Rightarrow> int \<Rightarrow> 'a run" where
  "list_getitem xs i =
     (let j = norm_index xs i
      in ([(i, length xs)],
          if 0 \<le> j \<and> j < len xs then Inr (xs ! nat j) else Inl IndexError))"

definition list_setitem :: "'a list \<Rightarrow> int \<Rightarrow> 'a \<Rightarrow> 'a list run" where
  "list_setitem xs i v =
     (let j = norm_index xs i
      in ([(i, length xs)],
          if 0 \<le> j \<and> j < len xs then Inr (xs[nat j := v]) else Inl IndexError))"

definition list_pop :: "'a list \<Rightarrow> int \<Rightarrow> ('a \<times> 'a list) run" where
  "list_pop xs i =
     (let j = norm_index xs i
      in ([(i, length xs)],
          if 0 \<le> j \<and> j < len xs
          then Inr (xs ! nat j, take (nat j) xs @ drop (Suc (nat j)) xs)
          else Inl IndexError))"

definition list_append :: "'a list \<Rightarrow> 'a \<Rightarrow> 'a list" where
  "list_append xs x = xs @ [x]"

definition enumerate_list :: "'a list \<Rightarrow> (int \<times> 'a) list" where
  "enumerate_list xs = zip (map int [0..<length xs]) xs"

subsection \<open>Terminal colours\<close>

text \<open>
  The constants of the \<^verbatim>\<open>colorama\<close> package the store uses: the escape sequences
  \<^verbatim>\<open>ESC [ 31 m\<close> and \<^verbatim>\<open>ESC [ 0 m\<close>.
\<close>

definition Fore_RED :: string where
  "Fore_RED = CHR 0x1B # ''[31m''"

definition Style_RESET_ALL :: string where
  "Style_RESET_ALL = CHR 0x1B # ''[0m''"

subsection \<open>DataStorage\<close>

record DataStorage =
  records :: "pyval list"

definition DataStorage_init :: DataStorage where
  "DataStorage_init = \<lparr>records = []\<rparr>"

definition add_record :: "DataStorage \<Rightarrow> pyval \<Rightarrow> (unit \<times> DataStorage) run" where
  "add_record self record =
     ret ((), self\<lparr>records := list_append (records self) record\<rparr>)"

definition record_not_found :: pyval where
  "record_not_found = PyStr (Fore_RED @ ''Record not found'' @ Style_RESET_ALL)"

definition get_record :: "DataStorage \<Rightarrow> int \<Rightarrow> (pyval \<times> DataStorage) run" where
  "get_record self idx =
     (if 0 \<le> idx \<and> idx < len (records self)
      then and_then (list_getitem (records self) idx) (\<lambda>v. ret (v, self))
      else ret (record_not_found, self))"

definition modify_record :: "DataStorage \<Rightarrow> int \<Rightarrow> pyval \<Rightarrow> (bool \<times> DataStorage) run" where
  "modify_record self idx new_record =
     (if 0 \<le> idx \<and> idx < len (records self)
      then and_then (list_setitem (records self) idx new_record)
             (\<lambda>rs. ret (True, self\<lparr>records := rs\<rparr>))
      else ret (False, self))"

definition remove_record :: "DataStorage \<Rightarrow> int \<Rightarrow> (bool \<times> DataStorage) run" where
  "remove_record self idx =
     (if 0 \<le> idx \<and> idx < len (records self)
      then and_then (list_pop (records self) idx)
             (\<lambda>(x, rs). ret (True, self\<lparr>records := rs\<rparr>))
      else ret (False, self))"

text \<open>
  \<^verbatim>\<open>display_all\<close> prints and returns \<^verbatim>\<open>None\<close>. A printed line is kept with the
  values its format string interpolates: \<open>NoRecordsLine\<close> is the line
  \<^verbatim>\<open>No records available.\<close>, \<open>HeaderLine\<close> the line \<^verbatim>\<open>Displaying all records:\<close>,
  and \<open>RecordLine idx record\<close> the line \<^verbatim>\<open>[idx] record\<close>.
\<close>

datatype printed = NoRecordsLine | HeaderLine | RecordLine int pyval

definition display_all :: "DataStorage \<Rightarrow> (printed list \<times> DataStorage) run" where
  "display_all self =
     (if records self = []
      then ret ([NoRecordsLine], self)
      else ret (HeaderLine # map (\<lambda>(idx, record). RecordLine idx record)
                                (enumerate_list (records self)), self))"

subsection \<open>Observations used in the properties\<close>

text \<open>
  \<^verbatim>\<open>isinstance(v, LatencyTestRecord)\<close>: the value is a reference to an instance.
\<close>

fun is_LatencyTestRecord :: "pyval \<Rightarrow> bool" where
  "is_LatencyTestRecord (PyObj a) = True"
| "is_LatencyTestRecord _ = False"

text \<open>The index and the record of every record line of a printout, in the order printed.\<close>

fun record_lines :: "printed list \<Rightarrow> (int \<times> pyval) list" where
  "record_lines [] = []"
| "record_lines (RecordLine idx record # ls) = (idx, record) # record_lines ls"
| "record_lines (_ # ls) = record_lines ls"

text \<open>The fields of the instance a value refers to, when it refers to one.\<close>

fun fields_of :: "heap \<Rightarrow> pyval \<Rightarrow> LatencyTestRecord option" where
  "fields_of h (PyObj a) = deref h a"
| "fields_of h _ = None"

section \<open>The list operations inside their bounds\<close>

lemma norm_index_nonneg: "0 \<le> i \<Longrightarrow> norm_index xs i = i"
  by (simp add: norm_index_def)

lemma nat_index_less: "0 \<le> i \<Longrightarrow> i < len xs \<Longrightarrow> nat i < length xs"
  by (simp add: len_def nat_less_iff)

lemma list_getitem_counts_from_end:
  "list_getitem [PyObj 0, PyObj 1] (- 1) = ([(- 1, 2)], Inr (PyObj 1))"
  by (simp add: list_getitem_def norm_index_def len_def)

lemma list_getitem_in_range:
  "0 \<le> i \<Longrightarrow> i < len xs \<Longrightarrow> list_getitem xs i = ([(i, length xs)], Inr (xs ! nat i))"
  by (simp add: list_getitem_def norm_index_nonneg)

lemma list_setitem_in_range:
  "0 \<le> i \<Longrightarrow> i < len xs \<Longrightarrow> list_setitem xs i v = ([(i, length xs)], Inr (xs[nat i := v]))"
  by (simp add: list_setitem_def norm_index_nonneg)

lemma list_pop_in_range:
  "0 \<le> i \<Longrightarrow> i < len xs \<Longrightarrow>
   list_pop xs i = ([(i, length xs)], Inr (xs ! nat i, take (nat i) xs @ drop (Suc (nat i)) xs))"
  by (simp add: list_pop_def norm_index_nonneg)

lemma nth_delete_before:
  "j < n \<Longrightarrow> n < length xs \<Longrightarrow> (take n xs @ drop (Suc n) xs) ! j = xs ! j"
  by (simp add: nth_append)

lemma nth_delete_after:
  "n \<le> j \<Longrightarrow> Suc j < length xs \<Longrightarrow> (take n xs @ drop (Suc n) xs) ! j = xs ! Suc j"
  by (simp add: nth_append min_def)

lemma length_delete:
  "n < length xs \<Longrightarrow> Suc (length (take n xs @ drop (Suc n) xs)) = length xs"
  by simp

lemma enumerate_list_length: "length (enumerate_list xs) = length xs"
  by (simp add: enumerate_list_def)

lemma enumerate_list_nth: "k < length xs \<Longrightarrow> enumerate_list xs ! k = (int k, xs ! k)"
  by (simp add: enumerate_list_def)

lemma record_lines_enumerate:
  "record_lines (map (\<lambda>(idx, record). RecordLine idx record) ps) = ps"
  by (induction ps) auto

section \<open>What each store method computes\<close>

lemma add_record_eq:
  "add_record s r = ([], Inr ((), s\<lparr>records := records s @ [r]\<rparr>))"
  by (simp add: add_record_def ret_def list_append_def)

lemma get_record_in_range:
  "0 \<le> i \<Longrightarrow> i < len (records s) \<Longrightarrow>
   get_record s i = ([(i, length (records s))], Inr (records s ! nat i, s))"
  by (simp add: get_record_def list_getitem_in_range and_then_def ret_def)

lemma get_record_out_of_range:
  "\<not> (0 \<le> i \<and> i < len (records s)) \<Longrightarrow> get_record s i = ([], Inr (record_not_found, s))"
  by (auto simp add: get_record_def ret_def)

lemma modify_record_in_range:
  "0 \<le> i \<Longrightarrow> i < len (records s) \<Longrightarrow>
   modify_record s i r =
     ([(i, length (records s))], Inr (True, s\<lparr>records := (records s)[nat i := r]\<rparr>))"
  by (simp add: modify_record_def list_setitem_in_range and_then_def ret_def)

lemma modify_record_out_of_range:
  "\<not> (0 \<le> i \<and> i < len (records s)) \<Longrightarrow> modify_record s i r = ([], Inr (False, s))"
  by (auto simp add: modify_record_def ret_def)

lemma remove_record_in_range:
  "0 \<le> i \<Longrightarrow> i < len (records s) \<Longrightarrow>
   remove_record s i =
     ([(i, length (records s))],
      Inr (True, s\<lparr>records := take (nat i) (records s) @ drop (Suc (nat i)) (records s)\<rparr>))"
  by (simp add: remove_record_def list_pop_in_range and_then_def ret_def)

lemma remove_record_out_of_range:
  "\<not> (0 \<le> i \<and> i < len (records s)) \<Longrightarrow> remove_record s i = ([], Inr (False, s))"
  by (auto simp add: remove_record_def ret_def)

lemma display_all_empty:
  "records s = [] \<Longrightarrow> display_all s = ([], Inr ([NoRecordsLine], s))"
  by (simp add: display_all_def ret_def)

lemma display_all_nonempty:
  "records s \<noteq> [] \<Longrightarrow>
   display_all s =
     ([], Inr (HeaderLine # map (\<lambda>(idx, record). RecordLine idx record)
                               (enumerate_list (records s)), s))"
  by (simp add: display_all_def ret_def)

section \<open>What the constructor stores\<close>

lemma init_source_latency:
  "source (LatencyTestRecord_init now src lat t) = src \<and>
   latency (LatencyTestRecord_init now src lat t) = lat"
  by (simp add: LatencyTestRecord_init_def)

lemma init_keeps_truthy_test_time:
  "truthy t \<Longrightarrow> test_time (LatencyTestRecord_init now src lat t) = t"
  by (simp add: LatencyTestRecord_init_def)

lemma init_keeps_datetime:
  "test_time (LatencyTestRecord_init now src lat (PyDatetime t)) = PyDatetime t"
  by (simp add: LatencyTestRecord_init_def)

lemma init_default_test_time:
  "test_time (LatencyTestRecord_init now src lat PyNone) = PyDatetime now"
  by (simp add: LatencyTestRecord_init_def)

lemma py_eq_refl: "py_eq v v"
  by (cases v) simp_all

section \<open>The examples of the specification\<close>

text \<open>
  An empty store, one record added, read at index 0, removed, and read again.
\<close>

lemma example_add_get_remove:
  "add_record DataStorage_init (PyObj 0) = ([], Inr ((), \<lparr>records = [PyObj 0]\<rparr>)) \<and>
   snd (get_record \<lparr>records = [PyObj 0]\<rparr> 0) = Inr (PyObj 0, \<lparr>records = [PyObj 0]\<rparr>) \<and>
   snd (remove_record \<lparr>records = [PyObj 0]\<rparr> 0) = Inr (True, \<lparr>records = []\<rparr>) \<and>
   snd (get_record \<lparr>records = []\<rparr> 0) = Inr (record_not_found, \<lparr>records = []\<rparr>)"
  by (simp add: add_record_eq DataStorage_init_def get_record_in_range get_record_out_of_range
      remove_record_in_range len_def)

text \<open>
  Two records added, the first replaced, and the store displayed.
\<close>

lemma example_add_modify_display:
  "snd (add_record DataStorage_init (PyObj 0)) = Inr ((), \<lparr>records = [PyObj 0]\<rparr>) \<and>
   snd (add_record \<lparr>records = [PyObj 0]\<rparr> (PyObj 1)) = Inr ((), \<lparr>records = [PyObj 0, PyObj 1]\<rparr>) \<and>
   snd (modify_record \<lparr>records = [PyObj 0, PyObj 1]\<rparr> 0 (PyObj 2)) =
     Inr (True, \<lparr>records = [PyObj 2, PyObj 1]\<rparr>) \<and>
   snd (display_all \<lparr>records = [PyObj 2, PyObj 1]\<rparr>) =
     Inr ([HeaderLine, RecordLine 0 (PyObj 2), RecordLine 1 (PyObj 1)],
          \<lparr>records = [PyObj 2, PyObj 1]\<rparr>)"
  by (simp add: add_record_eq DataStorage_init_def modify_record_in_range len_def
      display_all_def ret_def enumerate_list_def upt_rec)

text \<open>
  The not-found value carries the colour codes: it is not the plain string
  \<^verbatim>\<open>Record not found\<close> that \<^verbatim>\<open>test_remove_record\<close> compares it with.
\<close>

lemma record_not_found_coloured:
  "record_not_found = PyStr (CHR 0x1B # ''[31mRecord not found'' @ CHR 0x1B # ''[0m'') \<and>
   \<not> py_eq record_not_found (PyStr ''Record not found'')"
  by (simp add: record_not_found_def Fore_RED_def Style_RESET_ALL_def)

section \<open>The claims\<close>

text \<open>
  C1. For every store and every index \<open>i\<close>: when \<open>0 \<le> i < len(records)\<close>,
  \<^verbatim>\<open>get_record(i)\<close> returns the record stored at position \<open>i\<close>; otherwise it
  returns the not-found value, the coloured string \<^verbatim>\<open>Record not found\<close>, which is
  not a record, and raises nothing.
\<close>

theorem get_record_found_or_not_found:
  "(0 \<le> i \<and> i < len (records s) \<longrightarrow> snd (get_record s i) = Inr (records s ! nat i, s)) \<and>
   (\<not> (0 \<le> i \<and> i < len (records s)) \<longrightarrow>
      snd (get_record s i) = Inr (record_not_found, s) \<and> \<not> is_LatencyTestRecord record_not_found)"
  by (simp add: get_record_in_range get_record_out_of_range record_not_found_def)

theorem get_record_found_or_not_found_witness:
  "snd (get_record \<lparr>records = [PyObj 0, PyObj 1]\<rparr> 1) =
     Inr (PyObj 1, \<lparr>records = [PyObj 0, PyObj 1]\<rparr>) \<and>
   snd (get_record \<lparr>records = [PyObj 0, PyObj 1]\<rparr> 2) =
     Inr (record_not_found, \<lparr>records = [PyObj 0, PyObj 1]\<rparr>) \<and>
   snd (get_record \<lparr>records = [PyObj 0, PyObj 1]\<rparr> (- 1)) =
     Inr (record_not_found, \<lparr>records = [PyObj 0, PyObj 1]\<rparr>)"
  using get_record_found_or_not_found [of 1 "\<lparr>records = [PyObj 0, PyObj 1]\<rparr>"]
    get_record_found_or_not_found [of 2 "\<lparr>records = [PyObj 0, PyObj 1]\<rparr>"]
    get_record_found_or_not_found [of "- 1" "\<lparr>records = [PyObj 0, PyObj 1]\<rparr>"]
  by (simp add: len_def)

text \<open>
  C2, as amended. Two records compare equal exactly when they are the same object:
  the class defines no \<^verbatim>\<open>__eq__\<close>, so \<^verbatim>\<open>==\<close> is identity. Records that
  compare equal therefore have the same source, latency and timestamp; the converse
  does not hold.
\<close>

theorem record_equality_is_identity:
  "py_eq (PyObj a) (PyObj b) = (a = b) \<and>
   (py_eq (PyObj a) (PyObj b) \<longrightarrow>
      map_option source (deref h a) = map_option source (deref h b) \<and>
      map_option latency (deref h a) = map_option latency (deref h b) \<and>
      map_option test_time (deref h a) = map_option test_time (deref h b))"
  by simp

theorem record_equality_is_identity_witness:
  "py_eq (PyObj 0) (PyObj 0) \<and>
   map_option source (deref [\<lparr>source = ''NYC'', latency = 42, test_time = PyDatetime 7\<rparr>] 0) =
     Some ''NYC''"
  using record_equality_is_identity
    [of 0 0 "[\<lparr>source = ''NYC'', latency = 42, test_time = PyDatetime 7\<rparr>]"]
  by (simp add: deref_def)

text \<open>
  The claim as stated fails: two records constructed from the same source, latency and
  timestamp are distinct objects with pairwise equal fields, and compare unequal.
\<close>

theorem record_equality_counterexample:
  "new_LatencyTestRecord [] 5 ''NYC'' 42 (PyDatetime 7) =
     (PyObj 0, [\<lparr>source = ''NYC'', latency = 42, test_time = PyDatetime 7\<rparr>]) \<and>
   new_LatencyTestRecord [\<lparr>source = ''NYC'', latency = 42, test_time = PyDatetime 7\<rparr>]
       9 ''NYC'' 42 (PyDatetime 7) =
     (PyObj 1, [\<lparr>source = ''NYC'', latency = 42, test_time = PyDatetime 7\<rparr>,
                \<lparr>source = ''NYC'', latency = 42, test_time = PyDatetime 7\<rparr>]) \<and>
   deref [\<lparr>source = ''NYC'', latency = 42, test_time = PyDatetime 7\<rparr>,
          \<lparr>source = ''NYC'', latency = 42, test_time = PyDatetime 7\<rparr>] 0 =
     Some \<lparr>source = ''NYC'', latency = 42, test_time = PyDatetime 7\<rparr> \<and>
   deref [\<lparr>source = ''NYC'', latency = 42, test_time = PyDatetime 7\<rparr>,
          \<lparr>source = ''NYC'', latency = 42, test_time = PyDatetime 7\<rparr>] 1 =
     Some \<lparr>source = ''NYC'', latency = 42, test_time = PyDatetime 7\<rparr> \<and>
   \<not> py_eq (PyObj 0) (PyObj 1)"
  by (simp add: new_LatencyTestRecord_def LatencyTestRecord_init_def deref_def)

text \<open>
  C3. The claim asks that a supplied timestamp is always the one stored.
  \<^verbatim>\<open>__init__\<close> tests the truth value of \<^verbatim>\<open>test_time\<close> and not whether it is
  \<^verbatim>\<open>None\<close>: the supplied timestamp \<^verbatim>\<open>0\<close> is replaced by the reading of the
  clock. (Every timestamp with a true truth value, so every \<^verbatim>\<open>datetime\<close>, is
  stored as supplied: \<open>init_keeps_truthy_test_time\<close>, \<open>init_keeps_datetime\<close>.)
\<close>

theorem init_replaces_falsy_test_time:
  "test_time (LatencyTestRecord_init 1700000000 ''NYC'' 42 (PyInt 0)) = PyDatetime 1700000000 \<and>
   test_time (LatencyTestRecord_init 1700000000 ''NYC'' 42 (PyInt 0)) \<noteq> PyInt 0"
  by (simp add: LatencyTestRecord_init_def)

text \<open>
  C4. For every store, record \<open>r\<close> and index \<open>i\<close>: when \<open>0 \<le> i < len(records)\<close>,
  \<^verbatim>\<open>modify_record(i, r)\<close> returns \<^verbatim>\<open>True\<close> and \<^verbatim>\<open>get_record(i)\<close> on the
  resulting store returns \<open>r\<close>; otherwise it returns \<^verbatim>\<open>False\<close> and the store is
  what it was before the call.
\<close>

theorem modify_record_then_get:
  "(0 \<le> i \<and> i < len (records s) \<longrightarrow>
      (\<exists>s'. snd (modify_record s i r) = Inr (True, s') \<and> snd (get_record s' i) = Inr (r, s'))) \<and>
   (\<not> (0 \<le> i \<and> i < len (records s)) \<longrightarrow> snd (modify_record s i r) = Inr (False, s))"
proof (intro conjI impI)
  assume inr: "0 \<le> i \<and> i < len (records s)"
  let ?s' = "s\<lparr>records := (records s)[nat i := r]\<rparr>"
  have m: "snd (modify_record s i r) = Inr (True, ?s')"
    using inr by (simp add: modify_record_in_range)
  have l: "len (records ?s') = len (records s)"
    by (simp add: len_def)
  have "get_record ?s' i = ([(i, length (records ?s'))], Inr (records ?s' ! nat i, ?s'))"
    using inr l by (intro get_record_in_range) simp_all
  moreover have "records ?s' ! nat i = r"
    using inr by (simp add: nat_index_less)
  ultimately have g: "snd (get_record ?s' i) = Inr (r, ?s')"
    by simp
  from m g show "\<exists>s'. snd (modify_record s i r) = Inr (True, s') \<and> snd (get_record s' i) = Inr (r, s')"
    by blast
next
  assume "\<not> (0 \<le> i \<and> i < len (records s))"
  then show "snd (modify_record s i r) = Inr (False, s)"
    by (simp add: modify_record_out_of_range)
qed

theorem modify_record_then_get_witness:
  "snd (modify_record \<lparr>records = [PyObj 0, PyObj 1]\<rparr> 1 (PyObj 2)) =
     Inr (True, \<lparr>records = [PyObj 0, PyObj 2]\<rparr>) \<and>
   snd (get_record \<lparr>records = [PyObj 0, PyObj 2]\<rparr> 1) =
     Inr (PyObj 2, \<lparr>records = [PyObj 0, PyObj 2]\<rparr>) \<and>
   snd (modify_record \<lparr>records = [PyObj 0, PyObj 1]\<rparr> 2 (PyObj 2)) =
     Inr (False, \<lparr>records = [PyObj 0, PyObj 1]\<rparr>)"
proof -
  have a: "snd (modify_record \<lparr>records = [PyObj 0, PyObj 1]\<rparr> 1 (PyObj 2)) =
     Inr (True, \<lparr>records = [PyObj 0, PyObj 2]\<rparr>)"
    by (simp add: modify_record_def len_def and_then_def ret_def list_setitem_def norm_index_def)
  show ?thesis
    using a modify_record_then_get [of 1 "\<lparr>records = [PyObj 0, PyObj 1]\<rparr>" "PyObj 2"]
      modify_record_then_get [of 2 "\<lparr>records = [PyObj 0, PyObj 1]\<rparr>" "PyObj 2"]
    by (simp add: len_def)
qed

text \<open>
  C5. For every store and index \<open>i\<close>: when \<open>0 \<le> i < len(records)\<close>,
  \<^verbatim>\<open>remove_record(i)\<close> returns \<^verbatim>\<open>True\<close>, the length decreases by exactly one,
  every element before position \<open>i\<close> keeps its index and every element after it
  moves down by one; otherwise it returns \<^verbatim>\<open>False\<close> and the store is unchanged.
\<close>

theorem remove_record_shifts:
  "(0 \<le> i \<and> i < len (records s) \<longrightarrow>
      (\<exists>s'. snd (remove_record s i) = Inr (True, s') \<and>
            Suc (length (records s')) = length (records s) \<and>
            (\<forall>j. j < nat i \<longrightarrow> records s' ! j = records s ! j) \<and>
            (\<forall>j. nat i \<le> j \<and> j < length (records s') \<longrightarrow> records s' ! j = records s ! Suc j))) \<and>
   (\<not> (0 \<le> i \<and> i < len (records s)) \<longrightarrow> snd (remove_record s i) = Inr (False, s))"
proof (intro conjI impI)
  assume inr: "0 \<le> i \<and> i < len (records s)"
  let ?rs = "take (nat i) (records s) @ drop (Suc (nat i)) (records s)"
  let ?s' = "s\<lparr>records := ?rs\<rparr>"
  have n: "nat i < length (records s)"
    using inr by (simp add: nat_index_less)
  have r: "snd (remove_record s i) = Inr (True, ?s')"
    using inr by (simp add: remove_record_in_range)
  have l: "Suc (length (records ?s')) = length (records s)"
    using n length_delete [of "nat i" "records s"] by simp
  have b: "\<forall>j. j < nat i \<longrightarrow> records ?s' ! j = records s ! j"
    using n by (simp add: nth_delete_before)
  have a: "\<forall>j. nat i \<le> j \<and> j < length (records ?s') \<longrightarrow> records ?s' ! j = records s ! Suc j"
  proof (intro allI impI)
    fix j
    assume j: "nat i \<le> j \<and> j < length (records ?s')"
    then have "Suc j < length (records s)"
      using l by linarith
    with j have "?rs ! j = records s ! Suc j"
      by (intro nth_delete_after) simp_all
    then show "records ?s' ! j = records s ! Suc j"
      by simp
  qed
  from r l b a
  show "\<exists>s'. snd (remove_record s i) = Inr (True, s') \<and>
            Suc (length (records s')) = length (records s) \<and>
            (\<forall>j. j < nat i \<longrightarrow> records s' ! j = records s ! j) \<and>
            (\<forall>j. nat i \<le> j \<and> j < length (records s') \<longrightarrow> records s' ! j = records s ! Suc j)"
    by blast
next
  assume "\<not> (0 \<le> i \<and> i < len (records s))"
  then show "snd (remove_record s i) = Inr (False, s)"
    by (simp add: remove_record_out_of_range)
qed

theorem remove_record_shifts_witness:
  "snd (remove_record \<lparr>records = [PyObj 0, PyObj 1, PyObj 2]\<rparr> 1) =
     Inr (True, \<lparr>records = [PyObj 0, PyObj 2]\<rparr>) \<and>
   snd (remove_record \<lparr>records = [PyObj 0, PyObj 1, PyObj 2]\<rparr> 3) =
     Inr (False, \<lparr>records = [PyObj 0, PyObj 1, PyObj 2]\<rparr>)"
proof -
  have a: "snd (remove_record \<lparr>records = [PyObj 0, PyObj 1, PyObj 2]\<rparr> 1) =
     Inr (True, \<lparr>records = [PyObj 0, PyObj 2]\<rparr>)"
    by (simp add: remove_record_def len_def and_then_def ret_def list_pop_def norm_index_def)
  show ?thesis
    using a remove_record_shifts [of 1 "\<lparr>records = [PyObj 0, PyObj 1, PyObj 2]\<rparr>"]
      remove_record_shifts [of 3 "\<lparr>records = [PyObj 0, PyObj 1, PyObj 2]\<rparr>"]
    by (simp add: len_def)
qed

text \<open>
  C6. \<^verbatim>\<open>add_record(r)\<close> always succeeds. Afterwards the length has grown by
  exactly one, \<open>r\<close> is at the last index, the records stored before are at their
  previous indices, and for every valid index \<^verbatim>\<open>get_record\<close> returns the very
  record at that position of the extended sequence: it compares equal to it and has
  the same source, latency and timestamp in every heap.
\<close>

theorem add_record_appends:
  "\<exists>s'. add_record s r = ([], Inr ((), s')) \<and>
         length (records s') = Suc (length (records s)) \<and>
         records s' ! length (records s) = r \<and>
         last (records s') = r \<and>
         (\<forall>k. k < length (records s) \<longrightarrow> records s' ! k = records s ! k) \<and>
         (\<forall>i. 0 \<le> i \<and> i < len (records s') \<longrightarrow>
              (\<exists>v. snd (get_record s' i) = Inr (v, s') \<and>
                   v = (records s @ [r]) ! nat i \<and>
                   py_eq v ((records s @ [r]) ! nat i) \<and>
                   (\<forall>h. fields_of h v = fields_of h ((records s @ [r]) ! nat i)))) \<and>
         snd (get_record s' (len (records s))) = Inr (r, s')"
proof -
  let ?s' = "s\<lparr>records := records s @ [r]\<rparr>"
  have g: "\<forall>i. 0 \<le> i \<and> i < len (records ?s') \<longrightarrow>
              (\<exists>v. snd (get_record ?s' i) = Inr (v, ?s') \<and>
                   v = (records s @ [r]) ! nat i \<and>
                   py_eq v ((records s @ [r]) ! nat i) \<and>
                   (\<forall>h. fields_of h v = fields_of h ((records s @ [r]) ! nat i)))"
    by (simp add: get_record_in_range py_eq_refl)
  have "0 \<le> len (records s) \<and> len (records s) < len (records ?s')"
    by (simp add: len_def)
  then have "snd (get_record ?s' (len (records s))) =
      Inr (records ?s' ! nat (len (records s)), ?s')"
    by (simp add: get_record_in_range)
  then have v: "snd (get_record ?s' (len (records s))) = Inr (r, ?s')"
    by (simp add: len_def)
  have "add_record s r = ([], Inr ((), ?s'))"
    by (rule add_record_eq)
  moreover have "length (records ?s') = Suc (length (records s))"
    by simp
  moreover have "records ?s' ! length (records s) = r"
    by simp
  moreover have "last (records ?s') = r"
    by simp
  moreover have "\<forall>k. k < length (records s) \<longrightarrow> records ?s' ! k = records s ! k"
    by (simp add: nth_append)
  ultimately show ?thesis
    using g v by blast
qed

theorem add_record_appends_witness:
  "add_record \<lparr>records = [PyObj 0]\<rparr> (PyObj 1) = ([], Inr ((), \<lparr>records = [PyObj 0, PyObj 1]\<rparr>)) \<and>
   snd (get_record \<lparr>records = [PyObj 0, PyObj 1]\<rparr> 0) =
     Inr (PyObj 0, \<lparr>records = [PyObj 0, PyObj 1]\<rparr>) \<and>
   snd (get_record \<lparr>records = [PyObj 0, PyObj 1]\<rparr> 1) =
     Inr (PyObj 1, \<lparr>records = [PyObj 0, PyObj 1]\<rparr>)"
proof -
  have a: "add_record \<lparr>records = [PyObj 0]\<rparr> (PyObj 1) =
      ([], Inr ((), \<lparr>records = [PyObj 0, PyObj 1]\<rparr>))"
    by (simp add: add_record_def ret_def list_append_def)
  from add_record_appends [of "\<lparr>records = [PyObj 0]\<rparr>" "PyObj 1"]
  obtain s' where s': "add_record \<lparr>records = [PyObj 0]\<rparr> (PyObj 1) = ([], Inr ((), s'))"
    and g: "\<forall>i. 0 \<le> i \<and> i < len (records s') \<longrightarrow>
              (\<exists>v. snd (get_record s' i) = Inr (v, s') \<and>
                   v = (records \<lparr>records = [PyObj 0]\<rparr> @ [PyObj 1]) ! nat i \<and>
                   py_eq v ((records \<lparr>records = [PyObj 0]\<rparr> @ [PyObj 1]) ! nat i) \<and>
                   (\<forall>h. fields_of h v = fields_of h ((records \<lparr>records = [PyObj 0]\<rparr> @ [PyObj 1]) ! nat i)))"
    by blast
  from a s' have e: "s' = \<lparr>records = [PyObj 0, PyObj 1]\<rparr>"
    by simp
  have "0 \<le> (0::int) \<and> (0::int) < len (records s')" "0 \<le> (1::int) \<and> (1::int) < len (records s')"
    using e by (simp_all add: len_def)
  with g have "\<exists>v. snd (get_record s' 0) = Inr (v, s') \<and> v = (records \<lparr>records = [PyObj 0]\<rparr> @ [PyObj 1]) ! nat 0"
    and "\<exists>v. snd (get_record s' 1) = Inr (v, s') \<and> v = (records \<lparr>records = [PyObj 0]\<rparr> @ [PyObj 1]) ! nat 1"
    by blast+
  with a e show ?thesis
    by simp
qed

text \<open>
  C7. Every index a store method hands to a list operation satisfies
  \<open>0 \<le> i < len(records)\<close>, for the length the list has at that moment;
  \<^verbatim>\<open>add_record\<close> and \<^verbatim>\<open>display_all\<close> index nothing; and no method raises.
\<close>

theorem store_accesses_in_bounds:
  "(\<forall>a \<in> set (fst (get_record s i)).
      0 \<le> fst a \<and> fst a < int (snd a) \<and> snd a = length (records s)) \<and>
   (\<forall>a \<in> set (fst (modify_record s i r)).
      0 \<le> fst a \<and> fst a < int (snd a) \<and> snd a = length (records s)) \<and>
   (\<forall>a \<in> set (fst (remove_record s i)).
      0 \<le> fst a \<and> fst a < int (snd a) \<and> snd a = length (records s)) \<and>
   fst (add_record s r) = [] \<and>
   fst (display_all s) = [] \<and>
   (\<forall>e. snd (get_record s i) \<noteq> Inl e) \<and>
   (\<forall>e. snd (modify_record s i r) \<noteq> Inl e) \<and>
   (\<forall>e. snd (remove_record s i) \<noteq> Inl e) \<and>
   (\<forall>e. snd (add_record s r) \<noteq> Inl e) \<and>
   (\<forall>e. snd (display_all s) \<noteq> Inl e)"
proof (cases "0 \<le> i \<and> i < len (records s)")
  case True
  then have "get_record s i = ([(i, length (records s))], Inr (records s ! nat i, s))"
    and "modify_record s i r =
      ([(i, length (records s))], Inr (True, s\<lparr>records := (records s)[nat i := r]\<rparr>))"
    and "remove_record s i =
      ([(i, length (records s))],
       Inr (True, s\<lparr>records := take (nat i) (records s) @ drop (Suc (nat i)) (records s)\<rparr>))"
    by (simp_all add: get_record_in_range modify_record_in_range remove_record_in_range)
  moreover have "i < int (length (records s))"
    using True by (simp add: len_def)
  ultimately show ?thesis
    using True by (simp add: add_record_eq display_all_def ret_def)
next
  case False
  then have "get_record s i = ([], Inr (record_not_found, s))"
    and "modify_record s i r = ([], Inr (False, s))"
    and "remove_record s i = ([], Inr (False, s))"
    by (simp_all add: get_record_out_of_range modify_record_out_of_range
        remove_record_out_of_range)
  then show ?thesis
    by (simp add: add_record_eq display_all_def ret_def)
qed

theorem store_accesses_in_bounds_witness:
  "(1, 2) \<in> set (fst (get_record \<lparr>records = [PyObj 0, PyObj 1]\<rparr> 1)) \<and>
   (0::int) \<le> fst (1::int, 2::nat) \<and> fst (1::int, 2::nat) < int (snd (1::int, 2::nat)) \<and>
   fst (get_record \<lparr>records = [PyObj 0, PyObj 1]\<rparr> (- 1)) = [] \<and>
   fst (get_record \<lparr>records = [PyObj 0, PyObj 1]\<rparr> 2) = []"
proof -
  have m: "(1, 2) \<in> set (fst (get_record \<lparr>records = [PyObj 0, PyObj 1]\<rparr> 1))"
    by (simp add: get_record_def len_def and_then_def ret_def list_getitem_def norm_index_def)
  have n: "fst (get_record \<lparr>records = [PyObj 0, PyObj 1]\<rparr> (- 1)) = []"
    "fst (get_record \<lparr>records = [PyObj 0, PyObj 1]\<rparr> 2) = []"
    by (simp_all add: get_record_def len_def ret_def)
  from m store_accesses_in_bounds [of "\<lparr>records = [PyObj 0, PyObj 1]\<rparr>" 1 "PyObj 0"]
  have "0 \<le> fst (1::int, 2::nat) \<and> fst (1::int, 2::nat) < int (snd (1::int, 2::nat))"
    by blast
  with m n show ?thesis
    by blast
qed

text \<open>
  C8. \<^verbatim>\<open>display_all\<close> prints one record line for every stored record, in the
  order of the store, each with its current index. The empty store prints the single
  line \<^verbatim>\<open>No records available.\<close> and no other store does; a non-empty store
  prints the header followed by exactly the record lines.
\<close>

theorem display_all_lists_records:
  "\<exists>out. display_all s = ([], Inr (out, s)) \<and>
     length (record_lines out) = length (records s) \<and>
     (\<forall>k. k < length (records s) \<longrightarrow> record_lines out ! k = (int k, records s ! k)) \<and>
     map snd (record_lines out) = records s \<and>
     (out = [NoRecordsLine]) = (records s = []) \<and>
     (records s \<noteq> [] \<longrightarrow>
        out = HeaderLine # map (\<lambda>(idx, record). RecordLine idx record) (record_lines out))"
proof (cases "records s = []")
  case True
  then have "display_all s = ([], Inr ([NoRecordsLine], s))"
    by (rule display_all_empty)
  with True show ?thesis
    by simp
next
  case False
  let ?out = "HeaderLine # map (\<lambda>(idx, record). RecordLine idx record) (enumerate_list (records s))"
  have d: "display_all s = ([], Inr (?out, s))"
    using False by (rule display_all_nonempty)
  have rl: "record_lines ?out = enumerate_list (records s)"
    by (simp add: record_lines_enumerate)
  have "length (record_lines ?out) = length (records s)"
    unfolding rl by (simp add: enumerate_list_length)
  moreover have "\<forall>k. k < length (records s) \<longrightarrow> record_lines ?out ! k = (int k, records s ! k)"
    unfolding rl by (simp add: enumerate_list_nth)
  moreover have "map snd (record_lines ?out) = records s"
    unfolding rl by (simp add: enumerate_list_def)
  moreover have "(?out = [NoRecordsLine]) = (records s = [])"
    using False by simp
  moreover have "records s \<noteq> [] \<longrightarrow>
        ?out = HeaderLine # map (\<lambda>(idx, record). RecordLine idx record) (record_lines ?out)"
    unfolding rl by simp
  ultimately show ?thesis
    using d by blast
qed

theorem display_all_lists_records_witness:
  "display_all \<lparr>records = [PyObj 4, PyObj 7]\<rparr> =
     ([], Inr ([HeaderLine, RecordLine 0 (PyObj 4), RecordLine 1 (PyObj 7)],
               \<lparr>records = [PyObj 4, PyObj 7]\<rparr>)) \<and>
   record_lines [HeaderLine, RecordLine 0 (PyObj 4), RecordLine 1 (PyObj 7)] ! 1 = (1, PyObj 7) \<and>
   display_all \<lparr>records = []\<rparr> = ([], Inr ([NoRecordsLine], \<lparr>records = []\<rparr>))"
proof -
  have a: "display_all \<lparr>records = [PyObj 4, PyObj 7]\<rparr> =
     ([], Inr ([HeaderLine, RecordLine 0 (PyObj 4), RecordLine 1 (PyObj 7)],
               \<lparr>records = [PyObj 4, PyObj 7]\<rparr>))"
    by (simp add: display_all_def ret_def enumerate_list_def upt_rec)
  from display_all_lists_records [of "\<lparr>records = [PyObj 4, PyObj 7]\<rparr>"]
  obtain out where o: "display_all \<lparr>records = [PyObj 4, PyObj 7]\<rparr> =
      ([], Inr (out, \<lparr>records = [PyObj 4, PyObj 7]\<rparr>))"
    and k: "\<forall>k. k < length (records \<lparr>records = [PyObj 4, PyObj 7]\<rparr>) \<longrightarrow>
      record_lines out ! k = (int k, records \<lparr>records = [PyObj 4, PyObj 7]\<rparr> ! k)"
    by blast
  from a o have e: "out = [HeaderLine, RecordLine 0 (PyObj 4), RecordLine 1 (PyObj 7)]"
    by simp
  have "(1::nat) < length (records \<lparr>records = [PyObj 4, PyObj 7]\<rparr>)"
    by simp
  with k have "record_lines out ! 1 = (int 1, records \<lparr>records = [PyObj 4, PyObj 7]\<rparr> ! 1)"
    by blast
  then have b: "record_lines [HeaderLine, RecordLine 0 (PyObj 4), RecordLine 1 (PyObj 7)] ! 1 =
      (1, PyObj 7)"
    using e by simp
  from display_all_lists_records [of "\<lparr>records = []\<rparr>"]
  have c: "display_all \<lparr>records = []\<rparr> = ([], Inr ([NoRecordsLine], \<lparr>records = []\<rparr>))"
    by auto
  from a b c show ?thesis
    by blast
qed

text \<open>
  C9. For a negative index, \<^verbatim>\<open>get_record\<close> returns the not-found value,
  \<^verbatim>\<open>modify_record\<close> and \<^verbatim>\<open>remove_record\<close> return \<^verbatim>\<open>False\<close>, and the store
  is unchanged. No list operation is reached, so no record is addressed from the end
  of the sequence.
\<close>

theorem negative_index_rejected:
  "i < 0 \<Longrightarrow>
   get_record s i = ([], Inr (record_not_found, s)) \<and>
   modify_record s i r = ([], Inr (False, s)) \<and>
   remove_record s i = ([], Inr (False, s))"
  by (simp add: get_record_out_of_range modify_record_out_of_range remove_record_out_of_range)

theorem negative_index_rejected_witness:
  "(- 1 :: int) < 0 \<and>
   get_record \<lparr>records = [PyObj 0, PyObj 1]\<rparr> (- 1) =
     ([], Inr (record_not_found, \<lparr>records = [PyObj 0, PyObj 1]\<rparr>)) \<and>
   modify_record \<lparr>records = [PyObj 0, PyObj 1]\<rparr> (- 1) (PyObj 2) =
     ([], Inr (False, \<lparr>records = [PyObj 0, PyObj 1]\<rparr>)) \<and>
   remove_record \<lparr>records = [PyObj 0, PyObj 1]\<rparr> (- 1) =
     ([], Inr (False, \<lparr>records = [PyObj 0, PyObj 1]\<rparr>))"
proof -
  have h: "(- 1 :: int) < 0"
    by simp
  show ?thesis
    using h negative_index_rejected [OF h, of "\<lparr>records = [PyObj 0, PyObj 1]\<rparr>" "PyObj 2"]
    by simp
qed

text \<open>
  C10. For every store and every index, in range or not, \<^verbatim>\<open>get_record\<close> returns
  normally and leaves the store as it was.
\<close>

theorem get_record_leaves_store:
  "\<exists>v. snd (get_record s i) = Inr (v, s)"
proof (cases "0 \<le> i \<and> i < len (records s)")
  case True
  then show ?thesis
    by (simp add: get_record_in_range)
next
  case False
  then show ?thesis
    by (simp add: get_record_out_of_range)
qed

end
